theory Spec2Isabelle
  imports Complex_Main
begin

section \<open>Tensors, objects and the heap\<close>

text \<open>
  The module under verification is \<^verbatim>\<open>fairseq2/models/wav2vec2/masker.py\<close>: the class
  \<^verbatim>\<open>Wav2Vec2Masker\<close> (constructor and \<^verbatim>\<open>forward\<close>) and the function
  \<^verbatim>\<open>apply_temporal_mask\<close>.

  A tensor is its shape together with its elements, read by index. Elements outside the
  shape are never looked at by a statement below. Python floats that are only compared
  with \<^verbatim>\<open>0.0\<close> (the two mask probabilities) are reals; the elements of a feature
  tensor are only copied or set to zero, so their type is left open.
\<close>

datatype error = ValueError | AssertionError | IndexError | RuntimeError | TypeError

record 'a tensor2 =
  sh2 :: "nat \<times> nat"
  el2 :: "nat \<Rightarrow> nat \<Rightarrow> 'a"

record 'a tensor3 =
  sh3 :: "nat \<times> nat \<times> nat"
  el3 :: "nat \<Rightarrow> nat \<Rightarrow> nat \<Rightarrow> 'a"

text \<open>
  Tensors are objects that the caller and the callee share, so a call works on a heap of
  objects and a tensor argument is a reference (an index into the heap). The heap holds
  the objects the caller can reach: feature tensors and boolean masks.
\<close>

datatype 'a obj = Feat "'a tensor3" | BMask "bool tensor2"

type_synonym 'a heap = "'a obj list"

definition h_get :: "'a heap \<Rightarrow> nat \<Rightarrow> 'a obj option" where
  "h_get h r = (if r < length h then Some (h ! r) else None)"

section \<open>The mask-span sampler\<close>

text \<open>
  \<^verbatim>\<open>compute_mask\<close> lives in \<^verbatim>\<open>fairseq2.nn.utils.mask\<close>, outside the files at hand,
  and draws random numbers. It is a parameter of the model: a function from the keyword
  arguments of the call and the state of the random generator to an outcome and the next
  state. Its declared return type is \<^verbatim>\<open>Optional[Tensor]\<close>, and like every call it may
  raise. The \<^verbatim>\<open>device\<close> argument places the result and is left out.
\<close>

record request =
  rq_shape :: "nat \<times> nat"
  rq_span_len :: int
  rq_max_mask_prob :: real
  rq_row_lens :: "int list option"
  rq_min_num_spans :: int

datatype sampled = Raised error | Returned "bool tensor2 option"

type_synonym 'g sampler = "request \<Rightarrow> 'g \<Rightarrow> sampled \<times> 'g"

section \<open>The masker\<close>

record 'a Wav2Vec2Masker =
  temporal_span_len :: int
  max_temporal_mask_prob :: real
  temporal_mask_embed :: "'a list"
  spatial_span_len :: int
  max_spatial_mask_prob :: real

text \<open>
  \<^verbatim>\<open>torch.empty((model_dim,))\<close> followed by \<^verbatim>\<open>nn.init.uniform_\<close> (here
  \<open>uniform_init\<close>): a vector of \<^verbatim>\<open>model_dim\<close> elements, element \<open>i\<close> holding the draw
  \<open>u i\<close>. A negative size makes \<^verbatim>\<open>torch.empty\<close> raise. The constructor takes the draws
  as its last argument; \<^verbatim>\<open>device\<close> and \<^verbatim>\<open>dtype\<close> only place the vector and are left out.
\<close>

definition uniform_init :: "(nat \<Rightarrow> 'a) \<Rightarrow> nat \<Rightarrow> 'a list" where
  "uniform_init u n = map u [0..<n]"

definition Wav2Vec2Masker_init ::
  "int \<Rightarrow> int \<Rightarrow> real \<Rightarrow> int \<Rightarrow> real \<Rightarrow> (nat \<Rightarrow> 'a) \<Rightarrow> error + 'a Wav2Vec2Masker" where
  "Wav2Vec2Masker_init model_dim tsl tprob ssl sprob u =
     (if tprob = 0 then Inl ValueError
      else if model_dim < 0 then Inl RuntimeError
      else Inr \<lparr>temporal_span_len = tsl,
                max_temporal_mask_prob = tprob,
                temporal_mask_embed = uniform_init u (nat model_dim),
                spatial_span_len = ssl,
                max_spatial_mask_prob = sprob\<rparr>)"

subsection \<open>Indexed assignment with a boolean mask\<close>

text \<open>
  \<^verbatim>\<open>seqs[temporal_mask] = self.temporal_mask_embed\<close>: the mask must have the shape of the
  first two axes of \<^verbatim>\<open>seqs\<close> (otherwise \<^verbatim>\<open>IndexError\<close>), and the vector must broadcast
  to the selected rows: its length is the last axis, or 1 (otherwise \<^verbatim>\<open>RuntimeError\<close>).
  \<open>broadcast_nth v M m\<close> is element \<open>m\<close> of \<open>v\<close> broadcast to length \<open>M\<close>.
\<close>

definition broadcast_nth :: "'a list \<Rightarrow> nat \<Rightarrow> nat \<Rightarrow> 'a" where
  "broadcast_nth v M m = (if length v = M then v ! m else v ! 0)"

definition setitem_rows :: "'a tensor3 \<Rightarrow> bool tensor2 \<Rightarrow> 'a list \<Rightarrow> error + 'a tensor3" where
  "setitem_rows x bm v =
     (case sh3 x of (N, S, M) \<Rightarrow>
        if sh2 bm \<noteq> (N, S) then Inl IndexError
        else if length v = M \<or> length v = 1 then
          Inr (x\<lparr>el3 := \<lambda>n s m. if el2 bm n s then broadcast_nth v M m else el3 x n s m\<rparr>)
        else Inl RuntimeError)"

text \<open>\<^verbatim>\<open>spatial_mask.unsqueeze(1).expand(-1, seq_len, -1)\<close>\<close>

definition unsqueeze_expand :: "bool tensor2 \<Rightarrow> nat \<Rightarrow> bool tensor3" where
  "unsqueeze_expand bm seq_len =
     (case sh2 bm of (N, M) \<Rightarrow> \<lparr>sh3 = (N, seq_len, M), el3 = \<lambda>n s m. el2 bm n m\<rparr>)"

text \<open>\<^verbatim>\<open>seqs[spatial_mask] = 0.0\<close>, the mask having all three axes.\<close>

definition setitem_fill :: "'a tensor3 \<Rightarrow> bool tensor3 \<Rightarrow> 'a \<Rightarrow> error + 'a tensor3" where
  "setitem_fill x bm c =
     (if sh3 bm \<noteq> sh3 x then Inl IndexError
      else Inr (x\<lparr>el3 := \<lambda>n s m. if el3 bm n s m then c else el3 x n s m\<rparr>))"

subsection \<open>forward\<close>

text \<open>
  \<open>forward self compute_mask seqs seq_lens h g\<close>: \<open>seqs\<close> is the reference of the batch,
  \<open>seq_lens\<close> is only handed on to the sampler, \<open>h\<close> is the heap and \<open>g\<close> the state of the
  random generator. The result is the value returned or the error raised, with the heap
  and the generator as the call leaves them. On success the value is the pair of the
  reference of the batch and the reference of the temporal mask, which is a new object.
  An assignment that has been made stays made when a later step raises. Gradient
  tracking, devices and element types of tensors are not modelled.
\<close>

definition forward ::
  "'a::zero Wav2Vec2Masker \<Rightarrow> 'g sampler \<Rightarrow> nat \<Rightarrow> int list option \<Rightarrow> 'a heap \<Rightarrow> 'g
     \<Rightarrow> (error + nat \<times> nat) \<times> 'a heap \<times> 'g" where
  "forward self compute_mask seqs seq_lens h g =
     (case h_get h seqs of
        Some (Feat x) \<Rightarrow>
          (case sh3 x of (batch_size, seq_len, model_dim) \<Rightarrow>
            (case compute_mask \<lparr>rq_shape = (batch_size, seq_len),
                                rq_span_len = temporal_span_len self,
                                rq_max_mask_prob = max_temporal_mask_prob self,
                                rq_row_lens = seq_lens,
                                rq_min_num_spans = 2\<rparr> g of
               (Raised e, g1) \<Rightarrow> (Inl e, h, g1)
             | (Returned None, g1) \<Rightarrow> (Inl AssertionError, h, g1)
             | (Returned (Some temporal_mask), g1) \<Rightarrow>
                 (case setitem_rows x temporal_mask (temporal_mask_embed self) of
                    Inl e \<Rightarrow> (Inl e, h, g1)
                  | Inr x1 \<Rightarrow>
                      if max_spatial_mask_prob self > 0 then
                        (case compute_mask \<lparr>rq_shape = (batch_size, model_dim),
                                            rq_span_len = spatial_span_len self,
                                            rq_max_mask_prob = max_spatial_mask_prob self,
                                            rq_row_lens = None,
                                            rq_min_num_spans = 2\<rparr> g1 of
                           (Raised e, g2) \<Rightarrow> (Inl e, h[seqs := Feat x1], g2)
                         | (Returned None, g2) \<Rightarrow> (Inl AssertionError, h[seqs := Feat x1], g2)
                         | (Returned (Some spatial_mask), g2) \<Rightarrow>
                             (case setitem_fill x1 (unsqueeze_expand spatial_mask seq_len) 0 of
                                Inl e \<Rightarrow> (Inl e, h[seqs := Feat x1], g2)
                              | Inr x2 \<Rightarrow>
                                  (Inr (seqs, length h),
                                   h[seqs := Feat x2] @ [BMask temporal_mask], g2)))
                      else (Inr (seqs, length h),
                            h[seqs := Feat x1] @ [BMask temporal_mask], g1))))
      | _ \<Rightarrow> (Inl TypeError, h, g))"

subsection \<open>apply\_temporal\_mask\<close>

text \<open>
  \<^verbatim>\<open>x[temporal_mask]\<close> gathers, in row-major order of the mask, the feature vectors at
  the positions that are True, into a new tensor of shape \<open>(K, M)\<close>.
\<close>

definition true_positions :: "bool tensor2 \<Rightarrow> (nat \<times> nat) list" where
  "true_positions bm =
     (case sh2 bm of (N, S) \<Rightarrow>
        concat (map (\<lambda>n. map (Pair n) (filter (el2 bm n) [0..<S])) [0..<N]))"

definition getitem_mask :: "'a tensor3 \<Rightarrow> bool tensor2 \<Rightarrow> error + 'a tensor2" where
  "getitem_mask x bm =
     (case sh3 x of (N, S, M) \<Rightarrow>
        if sh2 bm \<noteq> (N, S) then Inl IndexError
        else (let idx = true_positions bm
              in Inr \<lparr>sh2 = (length idx, M),
                      el2 = \<lambda>k m. el3 x (fst (idx ! k)) (snd (idx ! k)) m\<rparr>))"

text \<open>
  \<^verbatim>\<open>t.unflatten(0, (n, -1))\<close>: the first axis, of size \<open>K\<close>, becomes two axes of sizes
  \<open>n\<close> and \<open>K / n\<close>. The size behind \<^verbatim>\<open>-1\<close> cannot be inferred when \<open>n\<close> is 0, and
  does not exist when \<open>n\<close> does not divide \<open>K\<close>; both raise.
\<close>

definition unflatten0 :: "'a tensor2 \<Rightarrow> nat \<Rightarrow> error + 'a tensor3" where
  "unflatten0 t n =
     (case sh2 t of (K, M) \<Rightarrow>
        if n = 0 then Inl RuntimeError
        else if K mod n \<noteq> 0 then Inl RuntimeError
        else Inr \<lparr>sh3 = (n, K div n, M),
                  el3 = \<lambda>i j m. el2 t (i * (K div n) + j) m\<rparr>)"

text \<open>
  \<open>apply_temporal_mask x temporal_mask h\<close>, on references. The value returned is the
  reference of the result, a new object at the end of the heap.
\<close>

definition apply_temporal_mask :: "nat \<Rightarrow> nat \<Rightarrow> 'a heap \<Rightarrow> (error + nat) \<times> 'a heap" where
  "apply_temporal_mask x temporal_mask h =
     (case (h_get h x, h_get h temporal_mask) of
        (Some (Feat xt), Some (BMask mt)) \<Rightarrow>
          (case getitem_mask xt mt of
             Inl e \<Rightarrow> (Inl e, h)
           | Inr sel \<Rightarrow>
               (case unflatten0 sel (fst (sh3 xt)) of
                  Inl e \<Rightarrow> (Inl e, h)
                | Inr y \<Rightarrow> (Inr (length h), h @ [Feat y])))
      | _ \<Rightarrow> (Inl TypeError, h))"

subsection \<open>Reading an element\<close>

text \<open>
  \<^verbatim>\<open>t[n, s, m]\<close> and \<^verbatim>\<open>mask[n, s]\<close> through a reference; an index outside the shape
  has no element.
\<close>

definition feat_at :: "'a heap \<Rightarrow> nat \<Rightarrow> nat \<Rightarrow> nat \<Rightarrow> nat \<Rightarrow> 'a option" where
  "feat_at h r n s m =
     (case h_get h r of
        Some (Feat x) \<Rightarrow>
          (case sh3 x of (N, S, M) \<Rightarrow>
             if n < N \<and> s < S \<and> m < M then Some (el3 x n s m) else None)
      | _ \<Rightarrow> None)"

definition mask_at :: "'a heap \<Rightarrow> nat \<Rightarrow> nat \<Rightarrow> nat \<Rightarrow> bool option" where
  "mask_at h r n s =
     (case h_get h r of
        Some (BMask b) \<Rightarrow>
          (case sh2 b of (N, S) \<Rightarrow> if n < N \<and> s < S then Some (el2 b n s) else None)
      | _ \<Rightarrow> None)"

definition feat_shape :: "'a heap \<Rightarrow> nat \<Rightarrow> (nat \<times> nat \<times> nat) option" where
  "feat_shape h r = (case h_get h r of Some (Feat x) \<Rightarrow> Some (sh3 x) | _ \<Rightarrow> None)"

definition mask_shape :: "'a heap \<Rightarrow> nat \<Rightarrow> (nat \<times> nat) option" where
  "mask_shape h r = (case h_get h r of Some (BMask b) \<Rightarrow> Some (sh2 b) | _ \<Rightarrow> None)"

section \<open>A concrete scenario\<close>

text \<open>
  A batch of shape \<open>(1, 2, 2)\<close> holding 1, 2, 3, 4, and a sampler without randomness that
  keeps to what is asked of a mask-span sampler: it refuses a span that does not fit into
  a row (or into a row's valid length), otherwise it lays every span at the start of the
  row, so that the spans overlap and the first \<open>span_len\<close> columns are masked; it counts
  its calls.
\<close>

definition x0 :: "real tensor3" where
  "x0 = \<lparr>sh3 = (1, 2, 2), el3 = \<lambda>n s m. real (2 * s + m + 1)\<rparr>"

definition leading_span :: "nat sampler" where
  "leading_span rq g =
     (case rq_shape rq of (rows, cols) \<Rightarrow>
        if int cols \<le> rq_span_len rq
           \<or> (case rq_row_lens rq of None \<Rightarrow> False
               | Some lens \<Rightarrow> list_ex (\<lambda>l. l \<le> rq_span_len rq) lens)
        then (Raised ValueError, g)
        else (Returned (Some \<lparr>sh2 = (rows, cols), el2 = \<lambda>n s. int s < rq_span_len rq\<rparr>),
              Suc g))"

definition half :: "nat \<Rightarrow> real" where
  "half i = 1 / 2"

text \<open>
  Two maskers of model dimension 2 whose embedding is \<open>(1/2, 1/2)\<close>: one without spatial
  masking, one with \<^verbatim>\<open>max_spatial_mask_prob = 0.5\<close>.
\<close>

definition masker_plain :: "real Wav2Vec2Masker" where
  "masker_plain = \<lparr>temporal_span_len = 1, max_temporal_mask_prob = 65 / 100,
                    temporal_mask_embed = uniform_init half 2,
                    spatial_span_len = 1, max_spatial_mask_prob = 0\<rparr>"

definition masker_spatial :: "real Wav2Vec2Masker" where
  "masker_spatial = \<lparr>temporal_span_len = 1, max_temporal_mask_prob = 65 / 100,
                      temporal_mask_embed = uniform_init half 2,
                      spatial_span_len = 1, max_spatial_mask_prob = 1 / 2\<rparr>"

text \<open>
  A batch of shape \<open>(2, 3, 1)\<close> whose element at \<open>(n, s)\<close> is \<open>10 n + s\<close>, and the mask of
  the same rows that leaves out position \<open>n\<close> of row \<open>n\<close>: two True entries in each row.
\<close>

definition x23 :: "real tensor3" where
  "x23 = \<lparr>sh3 = (2, 3, 1), el3 = \<lambda>n s m. real (10 * n + s)\<rparr>"

definition off_diagonal :: "bool tensor2" where
  "off_diagonal = \<lparr>sh2 = (2, 3), el2 = \<lambda>n s. s \<noteq> n\<rparr>"

section \<open>Construction\<close>

lemma init_succeeds:
  "tprob \<noteq> 0 \<Longrightarrow> 0 \<le> model_dim \<Longrightarrow>
   Wav2Vec2Masker_init model_dim tsl tprob ssl sprob u =
     Inr \<lparr>temporal_span_len = tsl, max_temporal_mask_prob = tprob,
          temporal_mask_embed = uniform_init u (nat model_dim),
          spatial_span_len = ssl, max_spatial_mask_prob = sprob\<rparr>"
  by (simp add: Wav2Vec2Masker_init_def)

lemma init_fields:
  assumes "Wav2Vec2Masker_init model_dim tsl tprob ssl sprob u = Inr self"
  shows "temporal_span_len self = tsl" "max_temporal_mask_prob self = tprob"
    "temporal_mask_embed self = uniform_init u (nat model_dim)"
    "spatial_span_len self = ssl" "max_spatial_mask_prob self = sprob"
    "tprob \<noteq> 0" "0 \<le> model_dim"
  using assms by (auto simp: Wav2Vec2Masker_init_def split: if_splits)

text \<open>
  C1. The claim: construction raises a configuration error for every
  \<open>max_temporal_mask_prob \<le> 0\<close>, and succeeds for every \<open>max_temporal_mask_prob > 0\<close>.
  The constructor compares with \<^verbatim>\<open>== 0.0\<close>, while its own message says that the value
  must be greater than 0: at \<open>-1/2\<close> (with \<open>model_dim = 4\<close> and the other defaults)
  nothing is raised and a masker holding the negative probability is returned.
\<close>

theorem init_accepts_negative_temporal_prob:
  "Wav2Vec2Masker_init 4 10 (- 1 / 2) 10 0 half =
     Inr \<lparr>temporal_span_len = 10, max_temporal_mask_prob = - 1 / 2,
          temporal_mask_embed = uniform_init half 4,
          spatial_span_len = 10, max_spatial_mask_prob = 0\<rparr>"
  by (simp add: Wav2Vec2Masker_init_def)

text \<open>
  C9. The claim: every successfully constructed masker has \<open>temporal_span_len > 0\<close> and
  \<open>spatial_span_len > 0\<close>. The constructor stores both span lengths as given and checks
  neither: with both lengths 0 it returns a masker.
\<close>

theorem init_zero_span_len_counterexample:
  "Wav2Vec2Masker_init 4 0 (65 / 100) 0 0 half =
     Inr \<lparr>temporal_span_len = 0, max_temporal_mask_prob = 65 / 100,
          temporal_mask_embed = uniform_init half 4,
          spatial_span_len = 0, max_spatial_mask_prob = 0\<rparr>
   \<and> \<not> (temporal_span_len \<lparr>temporal_span_len = 0, max_temporal_mask_prob = 65 / 100,
          temporal_mask_embed = uniform_init half 4,
          spatial_span_len = 0, max_spatial_mask_prob = (0::real)\<rparr> > 0)"
  by (simp add: Wav2Vec2Masker_init_def)

text \<open>
  C9, as amended: a successfully constructed masker holds exactly the span lengths it was
  given, so both are positive if and only if the caller passed positive ones.
\<close>

theorem init_keeps_span_lens:
  "Wav2Vec2Masker_init model_dim tsl tprob ssl sprob u = Inr self \<Longrightarrow>
   temporal_span_len self = tsl \<and> spatial_span_len self = ssl
   \<and> ((temporal_span_len self > 0 \<and> spatial_span_len self > 0) \<longleftrightarrow> (tsl > 0 \<and> ssl > 0))"
  by (auto simp: Wav2Vec2Masker_init_def split: if_splits)

theorem init_keeps_span_lens_witness:
  "Wav2Vec2Masker_init 4 10 (65 / 100) 10 0 half
     = Inr \<lparr>temporal_span_len = 10, max_temporal_mask_prob = 65 / 100,
            temporal_mask_embed = uniform_init half 4,
            spatial_span_len = 10, max_spatial_mask_prob = 0\<rparr>
   \<and> temporal_span_len \<lparr>temporal_span_len = 10, max_temporal_mask_prob = 65 / 100,
            temporal_mask_embed = uniform_init half 4,
            spatial_span_len = 10, max_spatial_mask_prob = (0::real)\<rparr> > 0"
proof -
  have e: "Wav2Vec2Masker_init 4 10 (65 / 100) 10 0 half
     = Inr \<lparr>temporal_span_len = 10, max_temporal_mask_prob = 65 / 100,
            temporal_mask_embed = uniform_init half 4,
            spatial_span_len = 10, max_spatial_mask_prob = 0\<rparr>"
    by (simp add: Wav2Vec2Masker_init_def)
  from init_keeps_span_lens [OF e] show ?thesis using e by simp
qed

section \<open>What a call of forward does\<close>

lemma setitem_rows_Inr:
  assumes "setitem_rows x tm v = Inr x1" and "sh3 x = (N, S, M)"
  shows "sh2 tm = (N, S)" and "sh3 x1 = (N, S, M)"
    and "el3 x1 n s m = (if el2 tm n s then broadcast_nth v M m else el3 x n s m)"
  using assms by (auto simp: setitem_rows_def split: if_splits)

lemma setitem_fill_Inr:
  assumes "setitem_fill x1 (unsqueeze_expand sm S) c = Inr x2" and "sh3 x1 = (N, S, M)"
  shows "sh2 sm = (N, M)" and "sh3 x2 = (N, S, M)"
    and "el3 x2 n s m = (if el2 sm n m then c else el3 x1 n s m)"
  using assms
  by (auto simp: setitem_fill_def unsqueeze_expand_def split: if_splits prod.splits)

lemma forward_Inr:
  assumes "forward self cm seqs seq_lens h g = (Inr v, h', g')"
  shows "\<exists>x N S M tm g1 x1.
      h_get h seqs = Some (Feat x) \<and> sh3 x = (N, S, M)
      \<and> cm \<lparr>rq_shape = (N, S), rq_span_len = temporal_span_len self,
              rq_max_mask_prob = max_temporal_mask_prob self,
              rq_row_lens = seq_lens, rq_min_num_spans = 2\<rparr> g = (Returned (Some tm), g1)
      \<and> setitem_rows x tm (temporal_mask_embed self) = Inr x1
      \<and> v = (seqs, length h)
      \<and> (if max_spatial_mask_prob self > 0
           then (\<exists>sm x2.
                  cm \<lparr>rq_shape = (N, M), rq_span_len = spatial_span_len self,
                      rq_max_mask_prob = max_spatial_mask_prob self,
                      rq_row_lens = None, rq_min_num_spans = 2\<rparr> g1 = (Returned (Some sm), g')
                  \<and> setitem_fill x1 (unsqueeze_expand sm S) 0 = Inr x2
                  \<and> h' = h[seqs := Feat x2] @ [BMask tm])
           else h' = h[seqs := Feat x1] @ [BMask tm] \<and> g' = g1)"
  using assms unfolding forward_def
  by (auto split: option.splits obj.splits prod.splits sampled.splits sum.splits if_splits)

text \<open>
  What a successful call leaves behind, element by element. \<open>sp\<close> is the spatial mask
  that was applied: empty when spatial masking is off.
\<close>

lemma forward_elements:
  assumes ok: "forward self cm seqs seq_lens h g = (Inr (r, mr), h', g')"
    and sh: "feat_shape h seqs = Some (N, S, M)"
  obtains x tm g1 x' sp where
    "h_get h seqs = Some (Feat x)" and "sh3 x = (N, S, M)" and "seqs < length h"
    and "r = seqs" and "mr = length h"
    and "cm \<lparr>rq_shape = (N, S), rq_span_len = temporal_span_len self,
              rq_max_mask_prob = max_temporal_mask_prob self,
              rq_row_lens = seq_lens, rq_min_num_spans = 2\<rparr> g = (Returned (Some tm), g1)"
    and "sh2 tm = (N, S)"
    and "h' = h[seqs := Feat x'] @ [BMask tm]" and "sh3 x' = (N, S, M)"
    and "\<And>n s m. el3 x' n s m =
            (if sp n m then 0
             else if el2 tm n s then broadcast_nth (temporal_mask_embed self) M m
             else el3 x n s m)"
    and "\<not> max_spatial_mask_prob self > 0 \<Longrightarrow> sp = (\<lambda>n m. False) \<and> g' = g1"
    and "max_spatial_mask_prob self > 0 \<Longrightarrow>
           \<exists>sm. cm \<lparr>rq_shape = (N, M), rq_span_len = spatial_span_len self,
                      rq_max_mask_prob = max_spatial_mask_prob self,
                      rq_row_lens = None, rq_min_num_spans = 2\<rparr> g1 = (Returned (Some sm), g')
                \<and> sh2 sm = (N, M) \<and> sp = el2 sm"
proof -
  from forward_Inr [OF ok] obtain x N' S' M' tm g1 x1 where
    x: "h_get h seqs = Some (Feat x)" and shx: "sh3 x = (N', S', M')"
    and t: "cm \<lparr>rq_shape = (N', S'), rq_span_len = temporal_span_len self,
              rq_max_mask_prob = max_temporal_mask_prob self,
              rq_row_lens = seq_lens, rq_min_num_spans = 2\<rparr> g = (Returned (Some tm), g1)"
    and s1: "setitem_rows x tm (temporal_mask_embed self) = Inr x1"
    and v: "(r, mr) = (seqs, length h)"
    and rest: "if max_spatial_mask_prob self > 0
           then (\<exists>sm x2.
                  cm \<lparr>rq_shape = (N', M'), rq_span_len = spatial_span_len self,
                      rq_max_mask_prob = max_spatial_mask_prob self,
                      rq_row_lens = None, rq_min_num_spans = 2\<rparr> g1 = (Returned (Some sm), g')
                  \<and> setitem_fill x1 (unsqueeze_expand sm S') 0 = Inr x2
                  \<and> h' = h[seqs := Feat x2] @ [BMask tm])
           else h' = h[seqs := Feat x1] @ [BMask tm] \<and> g' = g1"
    by blast
  from sh x shx have eq: "N' = N" "S' = S" "M' = M"
    by (simp_all add: feat_shape_def)
  from x have lt: "seqs < length h"
    by (simp add: h_get_def split: if_splits)
  note r1 = setitem_rows_Inr [OF s1 shx]
  show thesis
  proof (cases "max_spatial_mask_prob self > 0")
    case False
    with rest have "h' = h[seqs := Feat x1] @ [BMask tm]" "g' = g1" by simp_all
    with False x shx t v lt r1 eq show thesis
      by (intro that [of x tm g1 x1 "\<lambda>n m. False"]) auto
  next
    case True
    with rest obtain sm x2 where
      sp: "cm \<lparr>rq_shape = (N', M'), rq_span_len = spatial_span_len self,
                      rq_max_mask_prob = max_spatial_mask_prob self,
                      rq_row_lens = None, rq_min_num_spans = 2\<rparr> g1 = (Returned (Some sm), g')"
      and s2: "setitem_fill x1 (unsqueeze_expand sm S') 0 = Inr x2"
      and h': "h' = h[seqs := Feat x2] @ [BMask tm]"
      by auto
    note r2 = setitem_fill_Inr [OF s2 r1(2)]
    have el: "\<And>n s m. el3 x2 n s m =
                        (if el2 sm n m then 0
                         else if el2 tm n s then broadcast_nth (temporal_mask_embed self) M m
                         else el3 x n s m)"
      using r2(3) r1(3) eq by simp
    from True x shx t v lt r1(1) r2(1,2) eq sp h' el show thesis
      by (intro that [of x tm g1 x2 "el2 sm"]) auto
  qed
qed

lemma h_after:
  assumes "seqs < length h"
  shows "h_get (h[seqs := Feat y] @ [BMask tm]) seqs = Some (Feat y)"
    and "h_get (h[seqs := Feat y] @ [BMask tm]) (length h) = Some (BMask tm)"
  using assms by (auto simp: h_get_def nth_append)

text \<open>
  A call returns whenever the batch is a feature tensor, the sampler answers every request
  with a mask of the shape asked for, and the embedding has the model dimension of the
  batch (or a single element).
\<close>

lemma forward_returns:
  assumes sh: "feat_shape h seqs = Some (N, S, M)"
    and contract: "\<And>rq g. \<exists>tm g'. cm rq g = (Returned (Some tm), g') \<and> sh2 tm = rq_shape rq"
    and emb: "length (temporal_mask_embed self) = M \<or> length (temporal_mask_embed self) = 1"
  shows "\<exists>h' g'. forward self cm seqs seq_lens h g = (Inr (seqs, length h), h', g')"
proof -
  from sh obtain x where x: "h_get h seqs = Some (Feat x)" "sh3 x = (N, S, M)"
    by (auto simp: feat_shape_def split: option.splits obj.splits)
  from contract obtain tm g1 where
    t: "cm \<lparr>rq_shape = (N, S), rq_span_len = temporal_span_len self,
             rq_max_mask_prob = max_temporal_mask_prob self,
             rq_row_lens = seq_lens, rq_min_num_spans = 2\<rparr> g = (Returned (Some tm), g1)"
    and tsh: "sh2 tm = (N, S)"
    by fastforce
  from x tsh emb obtain x1 where
    s1: "setitem_rows x tm (temporal_mask_embed self) = Inr x1" and sh1: "sh3 x1 = (N, S, M)"
    by (auto simp: setitem_rows_def)
  show ?thesis
  proof (cases "max_spatial_mask_prob self > 0")
    case False
    with x t s1 show ?thesis by (simp add: forward_def)
  next
    case True
    from contract obtain sm g2 where
      p: "cm \<lparr>rq_shape = (N, M), rq_span_len = spatial_span_len self,
             rq_max_mask_prob = max_spatial_mask_prob self,
             rq_row_lens = None, rq_min_num_spans = 2\<rparr> g1 = (Returned (Some sm), g2)"
      and psh: "sh2 sm = (N, M)"
      by fastforce
    from sh1 psh obtain x2 where "setitem_fill x1 (unsqueeze_expand sm S) 0 = Inr x2"
      by (auto simp: setitem_fill_def unsqueeze_expand_def)
    with True x t s1 p show ?thesis by (simp add: forward_def)
  qed
qed

text \<open>Unfolding the scenario.\<close>

lemmas scenario_defs = forward_def h_get_def x0_def leading_span_def masker_plain_def
  masker_spatial_def setitem_rows_def setitem_fill_def unsqueeze_expand_def uniform_init_def
  feat_at_def mask_at_def feat_shape_def mask_shape_def half_def broadcast_nth_def

lemma init_plain: "Wav2Vec2Masker_init 2 1 (65 / 100) 1 0 half = Inr masker_plain"
  by (simp add: Wav2Vec2Masker_init_def masker_plain_def)

lemma init_spatial: "Wav2Vec2Masker_init 2 1 (65 / 100) 1 (1 / 2) half = Inr masker_spatial"
  by (simp add: Wav2Vec2Masker_init_def masker_spatial_def)

text \<open>Without spatial masking, a position outside the temporal mask keeps its values.\<close>

lemma forward_frame:
  assumes ok: "forward self cm seqs seq_lens h g = (Inr (r, mr), h', g')"
    and off: "\<not> max_spatial_mask_prob self > 0"
    and f: "mask_at h' mr n s = Some False"
  shows "feat_at h' r n s m = feat_at h seqs n s m"
proof -
  from forward_Inr [OF ok] obtain x N S M where x: "h_get h seqs = Some (Feat x)" "sh3 x = (N, S, M)"
    by blast
  then have sh: "feat_shape h seqs = Some (N, S, M)" by (simp add: feat_shape_def)
  show ?thesis
  proof (cases rule: forward_elements [OF ok sh])
    case (1 x tm g1 x' sp)
    from 1(11) off have sp: "sp = (\<lambda>n m. False)" by simp
    from f 1 have "n < N" "s < S" "\<not> el2 tm n s"
      by (auto simp: mask_at_def h_after split: if_splits)
    with 1 sp show ?thesis
      by (simp add: feat_at_def h_after)
  qed
qed

section \<open>The temporal mask and the batch\<close>

text \<open>
  C4. For every call of \<open>forward\<close> on a batch of shape \<open>(N, S, M)\<close> that returns, the
  temporal mask returned has shape exactly \<open>(N, S)\<close>.
\<close>

theorem forward_mask_shape:
  assumes "forward self cm seqs seq_lens h g = (Inr (r, mr), h', g')"
    and "feat_shape h seqs = Some (N, S, M)"
  shows "mask_shape h' mr = Some (N, S)"
proof (cases rule: forward_elements [OF assms])
  case (1 x tm g1 x' sp)
  then show ?thesis
    by (simp add: mask_shape_def h_after)
qed

theorem forward_mask_shape_witness:
  "fst (forward masker_plain leading_span 0 None [Feat x0] 0) = Inr (0, 1)
   \<and> feat_shape [Feat x0] 0 = Some (1, 2, 2)
   \<and> mask_shape (fst (snd (forward masker_plain leading_span 0 None [Feat x0] 0))) 1 = Some (1, 2)"
proof -
  obtain h' g' where e: "forward masker_plain leading_span 0 None [Feat x0] 0 = (Inr (0, 1), h', g')"
    by (simp add: scenario_defs)
  have s: "feat_shape [Feat x0] 0 = Some (1, 2, 2)"
    by (simp add: scenario_defs)
  from forward_mask_shape [OF e s] e s show ?thesis by simp
qed

text \<open>
  C2. The claim: after every call, every position that the returned temporal mask marks
  holds the embedding vector. With spatial masking on, the zeroing comes after the
  overwrite: in the scenario, position \<open>(0, 0)\<close> is marked by the temporal mask, the
  embedding is \<open>(1/2, 1/2)\<close>, and channel 0 of that position ends as 0.
\<close>

theorem forward_temporal_position_zeroed_counterexample:
  "Wav2Vec2Masker_init 2 1 (65 / 100) 1 (1 / 2) half = Inr masker_spatial
   \<and> fst (forward masker_spatial leading_span 0 None [Feat x0] 0) = Inr (0, 1)
   \<and> mask_at (fst (snd (forward masker_spatial leading_span 0 None [Feat x0] 0))) 1 0 0 = Some True
   \<and> feat_at (fst (snd (forward masker_spatial leading_span 0 None [Feat x0] 0))) 0 0 0 0 = Some 0
   \<and> temporal_mask_embed masker_spatial ! 0 = 1 / 2"
  by (simp add: Wav2Vec2Masker_init_def scenario_defs)

text \<open>
  C2, as amended: at every position that the returned temporal mask marks, each channel
  is zero if the spatial mask (the sampler's answer to the spatial request of the call)
  selects that channel of the row, and holds the embedding's value for that channel
  otherwise; with spatial masking off (\<open>max_spatial_mask_prob\<close> not above 0) there is no
  spatial mask and every channel holds the embedding's value, so the whole feature vector
  is the embedding.
\<close>

theorem forward_temporal_positions:
  assumes "forward self cm seqs seq_lens h g = (Inr (r, mr), h', g')"
    and "feat_shape h seqs = Some (N, S, M)"
    and "mask_at h' mr n s = Some True"
    and "m < M"
  shows "(\<not> max_spatial_mask_prob self > 0 \<longrightarrow>
            feat_at h' r n s m = Some (broadcast_nth (temporal_mask_embed self) M m))
       \<and> (max_spatial_mask_prob self > 0 \<longrightarrow>
            (\<exists>tm g1 sm.
                cm \<lparr>rq_shape = (N, S), rq_span_len = temporal_span_len self,
                    rq_max_mask_prob = max_temporal_mask_prob self,
                    rq_row_lens = seq_lens, rq_min_num_spans = 2\<rparr> g = (Returned (Some tm), g1)
              \<and> cm \<lparr>rq_shape = (N, M), rq_span_len = spatial_span_len self,
                     rq_max_mask_prob = max_spatial_mask_prob self,
                     rq_row_lens = None, rq_min_num_spans = 2\<rparr> g1 = (Returned (Some sm), g')
              \<and> feat_at h' r n s m =
                    Some (if el2 sm n m then 0
                          else broadcast_nth (temporal_mask_embed self) M m)))"
proof (cases rule: forward_elements [OF assms(1,2)])
  case (1 x tm g1 x' sp)
  from assms(3) 1 have t: "n < N" "s < S" "el2 tm n s"
    by (auto simp: mask_at_def h_after split: if_splits)
  have f: "feat_at h' r n s m = Some (el3 x' n s m)"
    using 1 t assms(4) by (simp add: feat_at_def h_after)
  have v: "el3 x' n s m = (if sp n m then 0 else broadcast_nth (temporal_mask_embed self) M m)"
    using 1(10) [of n s m] t by simp
  show ?thesis
  proof (cases "max_spatial_mask_prob self > 0")
    case False
    with 1(11) have "\<not> sp n m" by simp
    with False f v show ?thesis by simp
  next
    case True
    from 1(12) [OF True] obtain sm where
      sm: "cm \<lparr>rq_shape = (N, M), rq_span_len = spatial_span_len self,
                     rq_max_mask_prob = max_spatial_mask_prob self,
                     rq_row_lens = None, rq_min_num_spans = 2\<rparr> g1 = (Returned (Some sm), g')"
        "sp = el2 sm"
      by blast
    from f v sm(2) have "feat_at h' r n s m =
                    Some (if el2 sm n m then 0
                          else broadcast_nth (temporal_mask_embed self) M m)"
      by simp
    with True 1(6) sm(1) show ?thesis by blast
  qed
qed

theorem forward_temporal_positions_witness:
  "fst (forward masker_plain leading_span 0 None [Feat x0] 0) = Inr (0, 1)
   \<and> mask_at (fst (snd (forward masker_plain leading_span 0 None [Feat x0] 0))) 1 0 0 = Some True
   \<and> feat_at (fst (snd (forward masker_plain leading_span 0 None [Feat x0] 0))) 0 0 0 1 = Some (1 / 2)
   \<and> fst (forward masker_spatial leading_span 0 None [Feat x0] 0) = Inr (0, 1)
   \<and> mask_at (fst (snd (forward masker_spatial leading_span 0 None [Feat x0] 0))) 1 0 0 = Some True
   \<and> feat_at (fst (snd (forward masker_spatial leading_span 0 None [Feat x0] 0))) 0 0 0 0 = Some 0
   \<and> feat_at (fst (snd (forward masker_spatial leading_span 0 None [Feat x0] 0))) 0 0 0 1 = Some (1 / 2)"
proof -
  have s: "feat_shape [Feat x0] 0 = Some (1, 2, 2)"
    by (simp add: scenario_defs)
  obtain h' g' where e: "forward masker_plain leading_span 0 None [Feat x0] 0 = (Inr (0, 1), h', g')"
    by (simp add: scenario_defs)
  have t: "mask_at h' 1 0 0 = Some True"
    using e by (auto simp add: scenario_defs)
  have off: "\<not> max_spatial_mask_prob masker_plain > 0"
    by (simp add: masker_plain_def)
  have b: "broadcast_nth (temporal_mask_embed masker_plain) 2 1 = 1 / 2"
    by (simp add: scenario_defs)
  from forward_temporal_positions [OF e s t, of 1] off b
  have plain: "feat_at h' 0 0 0 1 = Some (1 / 2)" by simp
  obtain k' j' where
    e2: "forward masker_spatial leading_span 0 None [Feat x0] 0 = (Inr (0, 1), k', j')"
    by (simp add: scenario_defs)
  have t2: "mask_at k' 1 0 0 = Some True"
    using e2 by (auto simp add: scenario_defs)
  have on: "max_spatial_mask_prob masker_spatial > 0"
    by (simp add: masker_spatial_def)
  have b2: "broadcast_nth (temporal_mask_embed masker_spatial) 2 1 = 1 / 2"
    by (simp add: scenario_defs)
  have sel: "el2 sm 0 m = (m = 0)"
    if "leading_span \<lparr>rq_shape = (1, 2), rq_span_len = spatial_span_len masker_spatial,
                     rq_max_mask_prob = max_spatial_mask_prob masker_spatial,
                     rq_row_lens = None, rq_min_num_spans = 2\<rparr> g1 = (Returned (Some sm), j')"
    for sm g1 m
    using that by (auto simp: leading_span_def masker_spatial_def)
  from forward_temporal_positions [OF e2 s t2, of 0] on sel
  have z: "feat_at k' 0 0 0 0 = Some 0" by auto
  from forward_temporal_positions [OF e2 s t2, of 1] on sel b2
  have em: "feat_at k' 0 0 0 1 = Some (1 / 2)" by auto
  from e t plain e2 t2 z em show ?thesis by simp
qed

text \<open>
  C5. For every call of \<open>forward\<close> on a masker constructed with
  \<open>max_spatial_mask_prob = 0\<close>, every position where the returned temporal mask is False
  has its feature vector unchanged.
\<close>

theorem forward_without_spatial_mask_frame:
  assumes "Wav2Vec2Masker_init model_dim tsl tprob ssl 0 u = Inr self"
    and "forward self cm seqs seq_lens h g = (Inr (r, mr), h', g')"
    and "mask_at h' mr n s = Some False"
  shows "feat_at h' r n s m = feat_at h seqs n s m"
proof -
  from init_fields(5) [OF assms(1)] have "\<not> max_spatial_mask_prob self > 0" by simp
  from forward_frame [OF assms(2) this assms(3)] show ?thesis .
qed

theorem forward_without_spatial_mask_frame_witness:
  "Wav2Vec2Masker_init 2 1 (65 / 100) 1 0 half = Inr masker_plain
   \<and> fst (forward masker_plain leading_span 0 None [Feat x0] 0) = Inr (0, 1)
   \<and> mask_at (fst (snd (forward masker_plain leading_span 0 None [Feat x0] 0))) 1 0 1 = Some False
   \<and> feat_at (fst (snd (forward masker_plain leading_span 0 None [Feat x0] 0))) 0 0 1 0 = Some 3
   \<and> feat_at [Feat x0] 0 0 1 0 = Some 3"
proof -
  obtain h' g' where e: "forward masker_plain leading_span 0 None [Feat x0] 0 = (Inr (0, 1), h', g')"
    by (simp add: scenario_defs)
  have t: "mask_at h' 1 0 1 = Some False"
    using e by (auto simp add: scenario_defs)
  have v: "feat_at [Feat x0] 0 0 1 0 = Some 3"
    by (simp add: scenario_defs)
  from forward_without_spatial_mask_frame [OF init_plain e t, of 0] v e t init_plain
  show ?thesis by simp
qed

text \<open>
  Two maskers that agree on the temporal settings and both have spatial masking off behave
  alike: the spatial settings are not read.
\<close>

lemma forward_spatial_off:
  assumes "\<not> max_spatial_mask_prob self > 0"
    and "temporal_span_len self' = temporal_span_len self"
    and "max_temporal_mask_prob self' = max_temporal_mask_prob self"
    and "temporal_mask_embed self' = temporal_mask_embed self"
    and "\<not> max_spatial_mask_prob self' > 0"
  shows "forward self cm seqs seq_lens h g = forward self' cm seqs seq_lens h g"
  using assms unfolding forward_def
  by (simp split: option.split obj.split prod.split sampled.split sum.split)

section \<open>Spatial masking\<close>

text \<open>
  C6. For every call of \<open>forward\<close> with \<open>max_spatial_mask_prob > 0\<close> that returns: the
  spatial mask has shape \<open>(N, M)\<close>, it is the sampler's answer to the second request, made
  after the temporal one, and it applies to every time step; every position it selects
  is zero, also where the temporal mask put the embedding; every other position holds
  what the temporal overwrite left there.
\<close>

theorem forward_spatial_zeroing:
  assumes "forward self cm seqs seq_lens h g = (Inr (r, mr), h', g')"
    and "feat_shape h seqs = Some (N, S, M)"
    and "max_spatial_mask_prob self > 0"
  shows "\<exists>tm g1 sm.
      cm \<lparr>rq_shape = (N, S), rq_span_len = temporal_span_len self,
          rq_max_mask_prob = max_temporal_mask_prob self,
          rq_row_lens = seq_lens, rq_min_num_spans = 2\<rparr> g = (Returned (Some tm), g1)
      \<and> cm \<lparr>rq_shape = (N, M), rq_span_len = spatial_span_len self,
             rq_max_mask_prob = max_spatial_mask_prob self,
             rq_row_lens = None, rq_min_num_spans = 2\<rparr> g1 = (Returned (Some sm), g')
      \<and> sh2 sm = (N, M)
      \<and> (\<forall>n<N. \<forall>s<S. \<forall>m<M.
            feat_at h' r n s m =
              (if el2 sm n m then Some 0
               else if el2 tm n s then Some (broadcast_nth (temporal_mask_embed self) M m)
               else feat_at h seqs n s m))"
proof (cases rule: forward_elements [OF assms(1,2)])
  case (1 x tm g1 x' sp)
  from 1(12) [OF assms(3)] obtain sm where
    sm: "cm \<lparr>rq_shape = (N, M), rq_span_len = spatial_span_len self,
             rq_max_mask_prob = max_spatial_mask_prob self,
             rq_row_lens = None, rq_min_num_spans = 2\<rparr> g1 = (Returned (Some sm), g')"
      "sh2 sm = (N, M)" "sp = el2 sm"
    by blast
  have "feat_at h' r n s m =
              (if el2 sm n m then Some 0
               else if el2 tm n s then Some (broadcast_nth (temporal_mask_embed self) M m)
               else feat_at h seqs n s m)"
    if "n < N" "s < S" "m < M" for n s m
    using that 1 sm(3) by (simp add: feat_at_def h_after)
  with 1(6) sm(1,2) show ?thesis by blast
qed

theorem forward_spatial_zeroing_witness:
  "fst (forward masker_spatial leading_span 0 None [Feat x0] 0) = Inr (0, 1)
   \<and> feat_at (fst (snd (forward masker_spatial leading_span 0 None [Feat x0] 0))) 0 0 0 0 = Some 0
   \<and> feat_at (fst (snd (forward masker_spatial leading_span 0 None [Feat x0] 0))) 0 0 0 1 = Some (1 / 2)
   \<and> feat_at (fst (snd (forward masker_spatial leading_span 0 None [Feat x0] 0))) 0 0 1 0 = Some 0
   \<and> feat_at (fst (snd (forward masker_spatial leading_span 0 None [Feat x0] 0))) 0 0 1 1 = Some 4"
proof -
  obtain h' g' where e: "forward masker_spatial leading_span 0 None [Feat x0] 0 = (Inr (0, 1), h', g')"
    by (simp add: scenario_defs)
  have s: "feat_shape [Feat x0] 0 = Some (1, 2, 2)"
    by (simp add: scenario_defs)
  have on: "max_spatial_mask_prob masker_spatial > 0"
    by (simp add: masker_spatial_def)
  from forward_spatial_zeroing [OF e s on] obtain tm g1 sm where
    t: "leading_span \<lparr>rq_shape = (1, 2), rq_span_len = temporal_span_len masker_spatial,
          rq_max_mask_prob = max_temporal_mask_prob masker_spatial,
          rq_row_lens = None, rq_min_num_spans = 2\<rparr> 0 = (Returned (Some tm), g1)"
    and p: "leading_span \<lparr>rq_shape = (1, 2), rq_span_len = spatial_span_len masker_spatial,
             rq_max_mask_prob = max_spatial_mask_prob masker_spatial,
             rq_row_lens = None, rq_min_num_spans = 2\<rparr> g1 = (Returned (Some sm), g')"
    and el: "\<forall>n<1. \<forall>s<2. \<forall>m<2.
            feat_at h' 0 n s m =
              (if el2 sm n m then Some 0
               else if el2 tm n s then Some (broadcast_nth (temporal_mask_embed masker_spatial) 2 m)
               else feat_at [Feat x0] 0 n s m)"
    by blast
  from t have tm: "el2 tm = (\<lambda>n s. int s < 1)" by (auto simp: leading_span_def masker_spatial_def)
  from p have sm: "el2 sm = (\<lambda>n s. int s < 1)" by (auto simp: leading_span_def masker_spatial_def)
  have b: "broadcast_nth (temporal_mask_embed masker_spatial) 2 1 = 1 / 2"
    by (simp add: scenario_defs)
  have v: "feat_at [Feat x0] 0 0 1 1 = Some 4"
    by (simp add: scenario_defs)
  have "feat_at h' 0 0 0 0 = Some 0"
    using el [rule_format, of 0 0 0] sm by simp
  moreover have "feat_at h' 0 0 0 1 = Some (1 / 2)"
    using el [rule_format, of 0 0 1] sm tm b by simp
  moreover have "feat_at h' 0 0 1 0 = Some 0"
    using el [rule_format, of 0 1 0] sm by simp
  moreover have "feat_at h' 0 0 1 1 = Some 4"
    using el [rule_format, of 0 1 1] sm tm v by simp
  ultimately show ?thesis using e by simp
qed

section \<open>The request to the sampler\<close>

text \<open>
  Since the row lengths handed to the sampler are the caller's \<open>seq_lens\<close>, a sampler
  that keeps its spans inside the row lengths it is given keeps the temporal mask out of
  the padding. The sampler of the scenario is one.
\<close>

lemma forward_mask_within_seq_lens:
  assumes ok: "forward self cm seqs (Some lens) h g = (Inr (r, mr), h', g')"
    and contract: "\<And>rq g tm g' ls n s.
        cm rq g = (Returned (Some tm), g') \<Longrightarrow> rq_row_lens rq = Some ls \<Longrightarrow>
        n < length ls \<Longrightarrow> el2 tm n s \<Longrightarrow> int s < ls ! n"
    and marked: "mask_at h' mr n s = Some True"
    and n: "n < length lens"
  shows "int s < lens ! n"
proof -
  from forward_Inr [OF ok] obtain x N S M where "h_get h seqs = Some (Feat x)" "sh3 x = (N, S, M)"
    by blast
  then have sh: "feat_shape h seqs = Some (N, S, M)" by (simp add: feat_shape_def)
  show ?thesis
  proof (cases rule: forward_elements [OF ok sh])
    case (1 x tm g1 x' sp)
    from marked 1 have "el2 tm n s"
      by (auto simp: mask_at_def h_after split: if_splits)
    from contract [OF 1(6) _ n this] show ?thesis by simp
  qed
qed

lemma leading_span_keeps_to_row_lens:
  assumes "leading_span rq g = (Returned (Some tm), g')" and "rq_row_lens rq = Some ls"
    and "n < length ls" and "el2 tm n s"
  shows "int s < ls ! n"
proof -
  from assms(1,2) have "\<not> list_ex (\<lambda>l. l \<le> rq_span_len rq) ls"
    and "el2 tm = (\<lambda>n s. int s < rq_span_len rq)"
    by (auto simp: leading_span_def split: prod.splits if_splits)
  moreover from assms(3) have "ls ! n \<in> set ls" by simp
  ultimately have "rq_span_len rq < ls ! n" "int s < rq_span_len rq"
    using assms(4) by (auto simp: list_ex_iff)
  then show ?thesis by simp
qed

text \<open>
  C7. For every call of \<open>forward\<close>, the temporal mask is what the sampler answers to the
  request with the shape \<open>(N, S)\<close> of the batch, span length \<open>temporal_span_len\<close>,
  probability \<open>max_temporal_mask_prob\<close>, row lengths \<open>seq_lens\<close> and a minimum of 2 spans,
  made on the generator as the caller left it: if that answer is an exception the call
  raises it, if it is \<^verbatim>\<open>None\<close> the assertion fails, and if it is a mask, a call that
  returns returns that mask.
\<close>

theorem forward_temporal_request:
  assumes "feat_shape h seqs = Some (N, S, M)"
    and "cm \<lparr>rq_shape = (N, S), rq_span_len = temporal_span_len self,
             rq_max_mask_prob = max_temporal_mask_prob self,
             rq_row_lens = seq_lens, rq_min_num_spans = 2\<rparr> g = (out, g1)"
  shows "case out of
           Raised e \<Rightarrow> forward self cm seqs seq_lens h g = (Inl e, h, g1)
         | Returned None \<Rightarrow> forward self cm seqs seq_lens h g = (Inl AssertionError, h, g1)
         | Returned (Some tm) \<Rightarrow>
             (\<forall>r mr h' g'. forward self cm seqs seq_lens h g = (Inr (r, mr), h', g')
                \<longrightarrow> h_get h' mr = Some (BMask tm))"
proof -
  from assms(1) obtain x where x: "h_get h seqs = Some (Feat x)" "sh3 x = (N, S, M)"
    by (auto simp: feat_shape_def split: option.splits obj.splits)
  show ?thesis
  proof (cases out)
    case (Raised e)
    with x assms(2) show ?thesis by (simp add: forward_def)
  next
    case (Returned o1)
    show ?thesis
    proof (cases o1)
      case None
      with Returned x assms(2) show ?thesis by (simp add: forward_def)
    next
      case (Some tm)
      have "h_get h' mr = Some (BMask tm)"
        if ok: "forward self cm seqs seq_lens h g = (Inr (r, mr), h', g')" for r mr h' g'
      proof (cases rule: forward_elements [OF ok assms(1)])
        case (1 x tm' g1' x' sp)
        with assms(2) Returned Some have "tm' = tm" by simp
        with 1 show ?thesis by (simp add: h_after)
      qed
      with Returned Some show ?thesis by simp
    qed
  qed
qed

theorem forward_temporal_request_witness:
  "h_get (fst (snd (forward masker_plain leading_span 0 None [Feat x0] 0))) 1
     = Some (BMask \<lparr>sh2 = (1, 2), el2 = \<lambda>n s. int s < 1\<rparr>)"
proof -
  obtain h' g' where e: "forward masker_plain leading_span 0 None [Feat x0] 0 = (Inr (0, 1), h', g')"
    by (simp add: scenario_defs)
  have s: "feat_shape [Feat x0] 0 = Some (1, 2, 2)"
    by (simp add: scenario_defs)
  have c: "leading_span \<lparr>rq_shape = (1, 2), rq_span_len = temporal_span_len masker_plain,
             rq_max_mask_prob = max_temporal_mask_prob masker_plain,
             rq_row_lens = None, rq_min_num_spans = 2\<rparr> 0
           = (Returned (Some \<lparr>sh2 = (1, 2), el2 = \<lambda>n s. int s < 1\<rparr>), 1)"
    by (simp add: leading_span_def masker_plain_def)
  from forward_temporal_request [where cm = leading_span and self = masker_plain
      and seq_lens = None and g = 0, OF s c] e
  show ?thesis by simp
qed

section \<open>In-place masking\<close>

text \<open>
  C8. For every call of \<open>forward\<close> that returns: the first component returned is the
  reference the caller passed; the object behind it has been overwritten (at every
  position the temporal mask marks it now holds the embedding or zero); no other object
  of the caller has changed; the one new object is the temporal mask, which is the second
  component returned. No copy of the batch and no spatial mask is returned.
\<close>

theorem forward_in_place:
  assumes "forward self cm seqs seq_lens h g = (Inr (r, mr), h', g')"
    and "feat_shape h seqs = Some (N, S, M)"
  shows "r = seqs \<and> seqs < length h \<and> mr = length h
     \<and> (\<exists>x' tm g1.
           h' = h[seqs := Feat x'] @ [BMask tm]
         \<and> sh3 x' = (N, S, M)
         \<and> cm \<lparr>rq_shape = (N, S), rq_span_len = temporal_span_len self,
                rq_max_mask_prob = max_temporal_mask_prob self,
                rq_row_lens = seq_lens, rq_min_num_spans = 2\<rparr> g = (Returned (Some tm), g1)
         \<and> (\<forall>n<N. \<forall>s<S. \<forall>m<M. el2 tm n s \<longrightarrow>
               el3 x' n s m = broadcast_nth (temporal_mask_embed self) M m \<or> el3 x' n s m = 0))"
proof (cases rule: forward_elements [OF assms])
  case (1 x tm g1 x' sp)
  have "el3 x' n s m = broadcast_nth (temporal_mask_embed self) M m \<or> el3 x' n s m = 0"
    if "el2 tm n s" for n s m
    using that 1(10) [of n s m] by (cases "sp n m") simp_all
  with 1 show ?thesis by blast
qed

theorem forward_in_place_witness:
  "fst (forward masker_plain leading_span 0 None [Feat x0] 0) = Inr (0, 1)
   \<and> length (fst (snd (forward masker_plain leading_span 0 None [Feat x0] 0))) = 2
   \<and> feat_at [Feat x0] 0 0 0 0 = Some 1
   \<and> feat_at (fst (snd (forward masker_plain leading_span 0 None [Feat x0] 0))) 0 0 0 0 = Some (1 / 2)"
proof -
  obtain h' g' where e: "forward masker_plain leading_span 0 None [Feat x0] 0 = (Inr (0, 1), h', g')"
    by (simp add: scenario_defs)
  have s: "feat_shape [Feat x0] 0 = Some (1, 2, 2)"
    by (simp add: scenario_defs)
  from forward_in_place [OF e s] obtain x' tm where "h' = [Feat x0][0 := Feat x'] @ [BMask tm]"
    by blast
  then have l: "length h' = 2" by simp
  have a: "feat_at [Feat x0] 0 0 0 0 = Some 1"
    by (simp add: scenario_defs)
  have b: "feat_at h' 0 0 0 0 = Some (1 / 2)"
    using e by (auto simp add: scenario_defs)
  from e l a b show ?thesis by simp
qed

section \<open>A negative spatial probability\<close>

text \<open>
  C10. For every \<open>max_spatial_mask_prob\<close> below 0 (the other arguments being accepted),
  construction succeeds, and every call of \<open>forward\<close> on the masker gives the result, the
  heap and the generator state that the masker constructed with probability 0 gives; in
  particular positions outside the temporal mask keep their values.
\<close>

theorem init_negative_spatial_prob:
  assumes "sprob < 0" and "tprob \<noteq> 0" and "0 \<le> model_dim"
  shows "\<exists>self self0.
      Wav2Vec2Masker_init model_dim tsl tprob ssl sprob u = Inr self
    \<and> Wav2Vec2Masker_init model_dim tsl tprob ssl 0 u = Inr self0
    \<and> (\<forall>(cm :: 'g sampler) seqs seq_lens h g.
          forward self cm seqs seq_lens h g = forward self0 cm seqs seq_lens h g)
    \<and> (\<forall>(cm :: 'g sampler) seqs seq_lens h g r mr h' g' n s m.
          forward self cm seqs seq_lens h g = (Inr (r, mr), h', g')
          \<longrightarrow> mask_at h' mr n s = Some False
          \<longrightarrow> feat_at h' r n s m = feat_at h seqs n s m)"
proof -
  let ?neg = "\<lparr>temporal_span_len = tsl, max_temporal_mask_prob = tprob,
          temporal_mask_embed = uniform_init u (nat model_dim),
          spatial_span_len = ssl, max_spatial_mask_prob = sprob\<rparr>"
  let ?base = "\<lparr>temporal_span_len = tsl, max_temporal_mask_prob = tprob,
          temporal_mask_embed = uniform_init u (nat model_dim),
          spatial_span_len = ssl, max_spatial_mask_prob = 0\<rparr>"
  have i: "Wav2Vec2Masker_init model_dim tsl tprob ssl sprob u = Inr ?neg"
    using assms by (simp add: Wav2Vec2Masker_init_def)
  have i0: "Wav2Vec2Masker_init model_dim tsl tprob ssl 0 u = Inr ?base"
    using assms by (simp add: Wav2Vec2Masker_init_def)
  have off: "\<not> max_spatial_mask_prob ?neg > 0"
    using assms(1) by simp
  have same: "forward ?neg cm seqs seq_lens h g = forward ?base cm seqs seq_lens h g"
    for cm :: "'g sampler" and seqs seq_lens h g
    using assms(1) by (intro forward_spatial_off) simp_all
  have frame: "feat_at h' r n s m = feat_at h seqs n s m"
    if "forward ?neg cm seqs seq_lens h g = (Inr (r, mr), h', g')"
      and "mask_at h' mr n s = Some False"
    for cm :: "'g sampler" and seqs seq_lens h g r mr h' g' n s m
    using forward_frame [OF that(1) off that(2)] .
  have a: "\<forall>(cm :: 'g sampler) seqs seq_lens h g.
          forward ?neg cm seqs seq_lens h g = forward ?base cm seqs seq_lens h g"
    by (intro allI same)
  have b: "\<forall>(cm :: 'g sampler) seqs seq_lens h g r mr h' g' n s m.
          forward ?neg cm seqs seq_lens h g = (Inr (r, mr), h', g')
          \<longrightarrow> mask_at h' mr n s = Some False
          \<longrightarrow> feat_at h' r n s m = feat_at h seqs n s m"
    using frame by blast
  show ?thesis
    apply (rule exI [of _ ?neg])
    apply (rule exI [of _ ?base])
    using i i0 a b apply (intro conjI)
       apply assumption+
    done
qed

theorem init_negative_spatial_prob_witness:
  "Wav2Vec2Masker_init 2 1 (65 / 100) 1 (- 1 / 2) half
     = Inr \<lparr>temporal_span_len = 1, max_temporal_mask_prob = 65 / 100,
          temporal_mask_embed = uniform_init half 2,
          spatial_span_len = 1, max_spatial_mask_prob = - 1 / 2\<rparr>
   \<and> forward \<lparr>temporal_span_len = 1, max_temporal_mask_prob = 65 / 100,
          temporal_mask_embed = uniform_init half 2,
          spatial_span_len = 1, max_spatial_mask_prob = - 1 / 2\<rparr> leading_span 0 None [Feat x0] 0
     = forward masker_plain leading_span 0 None [Feat x0] 0"
proof -
  have n: "(- 1 / 2 :: real) < 0" "(65 / 100 :: real) \<noteq> 0" "(0::int) \<le> 2" by simp_all
  have i: "Wav2Vec2Masker_init 2 1 (65 / 100) 1 (- 1 / 2) half
     = Inr \<lparr>temporal_span_len = 1, max_temporal_mask_prob = 65 / 100,
          temporal_mask_embed = uniform_init half 2,
          spatial_span_len = 1, max_spatial_mask_prob = - 1 / 2\<rparr>"
    by (simp add: Wav2Vec2Masker_init_def)
  from init_negative_spatial_prob [where tsl = 1 and ssl = 1 and u = half, OF n]
  obtain self self0 where
    a: "Wav2Vec2Masker_init 2 1 (65 / 100) 1 (- 1 / 2) half = Inr self"
    and b: "Wav2Vec2Masker_init 2 1 (65 / 100) 1 0 half = Inr self0"
    and c: "\<forall>(cm :: nat sampler) seqs seq_lens h g.
          forward self cm seqs seq_lens h g = forward self0 cm seqs seq_lens h g"
    by (elim exE conjE)
  from a i have s1: "self = \<lparr>temporal_span_len = 1, max_temporal_mask_prob = 65 / 100,
          temporal_mask_embed = uniform_init half 2,
          spatial_span_len = 1, max_spatial_mask_prob = - 1 / 2\<rparr>" by simp
  from b init_plain have s2: "self0 = masker_plain" by simp
  have "forward self leading_span 0 None [Feat x0] 0 = forward self0 leading_span 0 None [Feat x0] 0"
    by (rule c [rule_format])
  then have e: "forward \<lparr>temporal_span_len = 1, max_temporal_mask_prob = 65 / 100,
          temporal_mask_embed = uniform_init half 2,
          spatial_span_len = 1, max_spatial_mask_prob = - 1 / 2\<rparr> leading_span 0 None [Feat x0] 0
     = forward masker_plain leading_span 0 None [Feat x0] 0"
    unfolding s1 s2 .
  from i e show ?thesis by (rule conjI)
qed

section \<open>apply\_temporal\_mask\<close>

text \<open>
  The True positions of a mask whose rows all hold \<open>c\<close> of them, in row-major order:
  position \<open>n c + j\<close> of the list is the \<open>j\<close>-th True position of row \<open>n\<close>.
\<close>

lemma concat_nth_equal_lengths:
  assumes "\<forall>l \<in> set ls. length l = c" and "n < length ls" and "j < c"
  shows "concat ls ! (n * c + j) = ls ! n ! j"
  using assms
proof (induction ls arbitrary: n)
  case Nil
  then show ?case by simp
next
  case (Cons l ls)
  show ?case
  proof (cases n)
    case 0
    with Cons.prems show ?thesis by (simp add: nth_append)
  next
    case (Suc k)
    with Cons.prems have "concat ls ! (k * c + j) = ls ! k ! j"
      by (intro Cons.IH) auto
    moreover from Cons.prems have "length l = c" by simp
    ultimately show ?thesis using Suc by (simp add: nth_append)
  qed
qed

lemma length_concat_equal_lengths:
  assumes "\<forall>l \<in> set ls. length l = c"
  shows "length (concat ls) = length ls * c"
  using assms by (induction ls) auto

lemma true_positions_equal_counts:
  assumes sh: "sh2 mt = (N, S)"
    and cnt: "\<forall>n<N. length (filter (el2 mt n) [0..<S]) = c"
  shows "length (true_positions mt) = N * c"
    and "n < N \<Longrightarrow> j < c \<Longrightarrow>
           true_positions mt ! (n * c + j) = (n, filter (el2 mt n) [0..<S] ! j)"
proof -
  let ?ls = "map (\<lambda>n. map (Pair n) (filter (el2 mt n) [0..<S])) [0..<N]"
  have tp: "true_positions mt = concat ?ls"
    using sh by (simp add: true_positions_def)
  have len: "\<forall>l \<in> set ?ls. length l = c"
    using cnt by auto
  from length_concat_equal_lengths [OF len] show "length (true_positions mt) = N * c"
    by (simp add: tp)
  assume n: "n < N" and j: "j < c"
  then have "concat ?ls ! (n * c + j) = ?ls ! n ! j"
    by (intro concat_nth_equal_lengths [OF len]) simp_all
  also have "\<dots> = (n, filter (el2 mt n) [0..<S] ! j)"
    using n j cnt by simp
  finally show "true_positions mt ! (n * c + j) = (n, filter (el2 mt n) [0..<S] ! j)"
    by (simp add: tp)
qed

text \<open>An empty batch makes the call raise, whatever the other two sizes are.\<close>

lemma apply_temporal_mask_empty_batch_raises:
  assumes "h_get h x = Some (Feat xt)" and "h_get h temporal_mask = Some (BMask mt)"
    and "sh3 xt = (0, S, M)" and "sh2 mt = (0, S)"
  shows "apply_temporal_mask x temporal_mask h = (Inl RuntimeError, h)"
  using assms
  by (simp add: apply_temporal_mask_def getitem_mask_def unflatten0_def Let_def)

text \<open>
  C3. The claim: for every batch of shape \<open>(N, S, M)\<close> and mask of shape \<open>(N, S)\<close> whose
  rows hold the same number of True entries, the call returns the masked feature vectors
  with the batch dimension kept. For the empty batch (\<open>N = 0\<close>) every row trivially holds
  the same number, and \<^verbatim>\<open>unflatten(0, (0, -1))\<close> raises: the size behind \<^verbatim>\<open>-1\<close> is
  ambiguous.
\<close>

theorem apply_temporal_mask_empty_batch_counterexample:
  "fst (apply_temporal_mask 0 1
          [Feat \<lparr>sh3 = (0, 2, 1), el3 = \<lambda>n s m. (0::real)\<rparr>,
           BMask \<lparr>sh2 = (0, 2), el2 = \<lambda>n s. False\<rparr>]) = Inl RuntimeError"
  by (simp add: apply_temporal_mask_def h_get_def getitem_mask_def unflatten0_def
      true_positions_def)

text \<open>
  C3, as amended: for every batch of shape \<open>(N, S, M)\<close> with \<open>N \<ge> 1\<close> and mask of shape
  \<open>(N, S)\<close> whose rows all hold the same number \<open>c\<close> of True entries, the call returns a
  new two-dimensional array of feature vectors, with the batch dimension \<open>N\<close> preserved
  and the masked positions flattened into one axis of length \<open>c\<close>, that contains exactly
  the masked feature vectors: entry \<open>(n, j)\<close> is the feature vector of row \<open>n\<close> at the
  \<open>j\<close>-th True position of that row. The heap afterwards is the old heap with the result
  appended, so neither argument has been changed.
\<close>

theorem apply_temporal_mask_gathers:
  assumes "h_get h x = Some (Feat xt)" and "h_get h temporal_mask = Some (BMask mt)"
    and "sh3 xt = (N, S, M)" and "sh2 mt = (N, S)"
    and "0 < N"
    and "\<forall>n<N. length (filter (el2 mt n) [0..<S]) = c"
  shows "\<exists>y. apply_temporal_mask x temporal_mask h = (Inr (length h), h @ [Feat y])
           \<and> sh3 y = (N, c, M)
           \<and> (\<forall>n<N. \<forall>j<c. \<forall>m<M.
                 el3 y n j m = el3 xt n (filter (el2 mt n) [0..<S] ! j) m)"
proof -
  note tp = true_positions_equal_counts [OF assms(4,6)]
  let ?sel = "\<lparr>sh2 = (length (true_positions mt), M),
               el2 = \<lambda>k m. el3 xt (fst (true_positions mt ! k)) (snd (true_positions mt ! k)) m\<rparr>"
  let ?y = "\<lparr>sh3 = (N, N * c div N, M), el3 = \<lambda>i j m. el2 ?sel (i * (N * c div N) + j) m\<rparr>"
  have g: "getitem_mask xt mt = Inr ?sel"
    using assms(3,4) by (simp add: getitem_mask_def Let_def)
  have u: "unflatten0 ?sel N = Inr ?y"
    using assms(5) by (simp add: unflatten0_def tp(1))
  have r: "apply_temporal_mask x temporal_mask h = (Inr (length h), h @ [Feat ?y])"
    using assms(1,2,3) g u by (simp add: apply_temporal_mask_def)
  have d: "N * c div N = c" using assms(5) by simp
  have "el3 ?y n j m = el3 xt n (filter (el2 mt n) [0..<S] ! j) m"
    if "n < N" "j < c" for n j m
    using tp(2) [OF that] by (simp add: d)
  with r d show ?thesis by (intro exI [of _ ?y]) simp
qed

theorem apply_temporal_mask_gathers_witness:
  "fst (apply_temporal_mask 0 1 [Feat x23, BMask off_diagonal]) = Inr 2
   \<and> feat_shape (snd (apply_temporal_mask 0 1 [Feat x23, BMask off_diagonal])) 2 = Some (2, 2, 1)
   \<and> feat_at (snd (apply_temporal_mask 0 1 [Feat x23, BMask off_diagonal])) 2 0 0 0 = Some 1
   \<and> feat_at (snd (apply_temporal_mask 0 1 [Feat x23, BMask off_diagonal])) 2 0 1 0 = Some 2
   \<and> feat_at (snd (apply_temporal_mask 0 1 [Feat x23, BMask off_diagonal])) 2 1 0 0 = Some 10
   \<and> feat_at (snd (apply_temporal_mask 0 1 [Feat x23, BMask off_diagonal])) 2 1 1 0 = Some 12
   \<and> h_get (snd (apply_temporal_mask 0 1 [Feat x23, BMask off_diagonal])) 0 = Some (Feat x23)
   \<and> h_get (snd (apply_temporal_mask 0 1 [Feat x23, BMask off_diagonal])) 1 = Some (BMask off_diagonal)"
proof -
  let ?h = "[Feat x23, BMask off_diagonal]"
  have u: "[0..<3] = [0, 1, 2]" by (simp add: upt_rec)
  have f0: "filter (el2 off_diagonal 0) [0..<3] = [1, 2]"
    and f1: "filter (el2 off_diagonal 1) [0..<3] = [0, 2]"
    by (simp_all add: u off_diagonal_def)
  have a: "h_get ?h 0 = Some (Feat x23)" "h_get ?h 1 = Some (BMask off_diagonal)"
    by (simp_all add: h_get_def)
  have s: "sh3 x23 = (2, 3, 1)" "sh2 off_diagonal = (2, 3)" "(0::nat) < 2"
    by (simp_all add: x23_def off_diagonal_def)
  have c: "\<forall>n<2. length (filter (el2 off_diagonal n) [0..<3]) = 2"
    using f0 f1 by (auto simp: less_2_cases_iff)
  from apply_temporal_mask_gathers [OF a s c] obtain y where
    r: "apply_temporal_mask 0 1 ?h = (Inr (length ?h), ?h @ [Feat y])"
    and sy: "sh3 y = (2, 2, 1)"
    and el: "\<forall>n<2. \<forall>j<2. \<forall>m<1.
                 el3 y n j m = el3 x23 n (filter (el2 off_diagonal n) [0..<3] ! j) m"
    by blast
  have "el3 y 0 0 0 = 1" using el [rule_format, of 0 0 0] f0 by (simp add: x23_def)
  moreover have "el3 y 0 1 0 = 2" using el [rule_format, of 0 1 0] f0 by (simp add: x23_def)
  moreover have "el3 y 1 0 0 = 10" using el [rule_format, of 1 0 0] f1 by (simp add: x23_def)
  moreover have "el3 y 1 1 0 = 12" using el [rule_format, of 1 1 0] f1 by (simp add: x23_def)
  ultimately show ?thesis
    using r sy by (simp add: feat_at_def feat_shape_def h_get_def)
qed

end
